theory Spec2Isabelle
  imports Main "HOL-Library.Sublist" "HOL-Library.Word"
begin

section \<open>Data model (src/App.tsx, src/services/api.ts)\<close>

text \<open>
  The \<open>Threat\<close> and \<open>NodeStatus\<close> interfaces are imported by \<open>App.tsx\<close> from \<open>./types\<close>;
  their fields are the ones the object literals of \<open>MOCK_THREAT_LOGS\<close>, of
  \<open>transformToThreat\<close> and of the initial \<open>nodes\<close> state carry. The field \<open>id\<close> of a
  threat is \<open>threat_id\<close> here and \<open>type\<close> is \<open>threat_type\<close>; the fields \<open>id\<close> and \<open>name\<close>
  of a node are \<open>node_id\<close> and \<open>node_name\<close>. JavaScript strings are modelled as
  \<open>string\<close>, integral JavaScript numbers as \<open>int\<close>.
\<close>

datatype severity = low | medium | high | critical

record threat =
  threat_id :: string
  threat_type :: string
  ip :: string
  location :: string
  confidence :: int
  severity :: severity
  timestamp :: string
  image :: string
  description :: string

datatype node_state = active | under_attack | offline

record node_status =
  node_id :: string
  node_name :: string
  region :: string
  status :: node_state
  uptime :: string
  requests :: int

text \<open>A property read from \<open>undefined\<close> raises a \<open>TypeError\<close>; a failed request raises an \<open>Error\<close>.\<close>

datatype error = TypeError | Error string

subsection \<open>The fallback corpus \<open>MOCK_THREAT_LOGS\<close>\<close>

definition MOCK_THREAT_LOGS :: "threat list" where
  \<open>MOCK_THREAT_LOGS =
    [\<lparr>threat_id = ''1'', threat_type = ''SQL Injection'', ip = ''203.0.113.45'',
      location = ''Shanghai, CN'', confidence = 98, severity = critical,
      timestamp = ''10:42:05 UTC'',
      image = ''https://images.unsplash.com/photo-1558494949-efc02570fbc9?q=80&w=1000&auto=format&fit=crop'',
      description = ''Payload detected: "' OR 1=1 --". ML Model classified as malicious SQL interaction. Target: /login endpoint.''\<rparr>,
     \<lparr>threat_id = ''2'', threat_type = ''XSS Attempt'', ip = ''198.51.100.23'',
      location = ''St. Petersburg, RU'', confidence = 92, severity = high,
      timestamp = ''10:41:12 UTC'',
      image = ''https://images.unsplash.com/photo-1526374965328-7f61d4dc18c5?q=80&w=1000&auto=format&fit=crop'',
      description = ''Reflected Cross-Site Scripting vector identified in search parameter. Script tags detected in encoded URL.''\<rparr>,
     \<lparr>threat_id = ''3'', threat_type = ''SSH Brute Force'', ip = ''185.199.108.153'',
      location = ''Lagos, NG'', confidence = 89, severity = medium,
      timestamp = ''10:38:55 UTC'',
      image = ''https://images.unsplash.com/photo-1614064641938-3bbee52942c7?q=80&w=1000&auto=format&fit=crop'',
      description = ''Rapid authentication failures detected on port 22. 50 attempts in 3 seconds. Pattern matches dictionary attack.''\<rparr>,
     \<lparr>threat_id = ''4'', threat_type = ''Directory Traversal'', ip = ''45.33.22.11'',
      location = ''Frankfurt, DE'', confidence = 95, severity = high,
      timestamp = ''10:35:01 UTC'',
      image = ''https://images.unsplash.com/photo-1516110833967-0b5716ca1387?q=80&w=1000&auto=format&fit=crop'',
      description = ''Path manipulation attempt: "../../../etc/passwd". Blocked by WAF rule set #402.''\<rparr>,
     \<lparr>threat_id = ''5'', threat_type = ''Port Scanning'', ip = ''104.244.42.1'',
      location = ''New York, US'', confidence = 75, severity = low,
      timestamp = ''10:30:22 UTC'',
      image = ''https://images.unsplash.com/photo-1544197150-b99a580bbcbf?q=80&w=1000&auto=format&fit=crop'',
      description = ''Sequential TCP SYN scan detected across ports 1000-2000. Low rate, likely reconnaissance.''\<rparr>,
     \<lparr>threat_id = ''6'', threat_type = ''Command Injection'', ip = ''91.234.11.8'',
      location = ''Bucharest, RO'', confidence = 99, severity = critical,
      timestamp = ''10:28:15 UTC'',
      image = ''https://images.unsplash.com/photo-1555949963-aa79dcee981c?q=80&w=1000&auto=format&fit=crop'',
      description = ''System call injected into image upload handler: "; cat /etc/shadow". Execution prevented in sandbox.''\<rparr>]\<close>

section \<open>ThreatStore\<close>

subsection \<open>Arrival merge: the updater passed to \<open>setLiveThreats\<close> in \<open>onThreat\<close>\<close>

text \<open>
  \<^verbatim>\<open>
  setLiveThreats((prev) => {
    const exists = prev.some((t) => t.id === newThreat.id);
    if (exists) return prev;
    return [newThreat, ...prev].slice(0, 50);
  });
  \<close>
\<close>

definition exists_in :: "threat list \<Rightarrow> threat \<Rightarrow> bool" where
  "exists_in prev newThreat = list_ex (\<lambda>t. threat_id t = threat_id newThreat) prev"

definition merge_arrival :: "threat list \<Rightarrow> threat \<Rightarrow> threat list" where
  "merge_arrival prev newThreat =
     (if exists_in prev newThreat then prev else take 50 (newThreat # prev))"

text \<open>A sequence of arrivals, applied in order to a store.\<close>

definition arrivals :: "threat list \<Rightarrow> threat list \<Rightarrow> threat list" where
  "arrivals store ts = foldl merge_arrival store ts"

subsection \<open>Display composition: \<open>allThreats\<close>\<close>

text \<open>
  \<^verbatim>\<open>
  const allThreats = isBackendConnected && liveThreats.length > 0
    ? [...liveThreats, ...MOCK_THREAT_LOGS.slice(0, Math.max(0, 6 - liveThreats.length))]
    : MOCK_THREAT_LOGS;
  \<close>
  \<open>6 - liveThreats.length\<close> is computed over the integers, where it may be negative;
  \<open>slice(0, n)\<close> with \<open>n \<ge> 0\<close> keeps the first \<open>n\<close> elements.
\<close>

definition allThreats :: "bool \<Rightarrow> threat list \<Rightarrow> threat list" where
  "allThreats isBackendConnected liveThreats =
     (if isBackendConnected \<and> length liveThreats > 0
      then liveThreats @ take (nat (max 0 (6 - int (length liveThreats)))) MOCK_THREAT_LOGS
      else MOCK_THREAT_LOGS)"

section \<open>Component state of \<open>Dashboard\<close> and seeding\<close>

text \<open>
  The component state of \<open>Dashboard\<close> that the claims depend on, one field for each
  \<open>useState\<close> cell. Two fields are not React state: \<open>now\<close> and \<open>timers\<close> are the clock
  (in milliseconds) and the queue of the callbacks registered with \<open>setTimeout\<close> by
  \<open>handleNodeAction\<close>, each with the time it is due and the \<open>index\<close> its closure holds;
  \<open>posted\<close> is the log of the bodies sent to \<open>POST /api/block-ip\<close>.
\<close>

datatype toast_type = success | error

record toast_state =
  toast_message :: string
  toast_type :: toast_type

record dashboard =
  liveThreats :: "threat list"
  isBackendConnected :: bool
  toast :: "toast_state option"
  attackAlert :: "threat option"
  isAlertAcknowledged :: bool
  selectedThreat :: "threat option"
  rebootingIndex :: "nat option"
  nodes :: "node_status list"
  now :: nat
  timers :: "(nat \<times> nat) list"
  posted :: "string list"

definition initial_nodes :: "node_status list" where
  "initial_nodes =
    [\<lparr>node_id = ''n1'', node_name = ''Web-Honeypot-01'', region = ''US-East'',
      status = active, uptime = ''14d 2h'', requests = 4521\<rparr>,
     \<lparr>node_id = ''n2'', node_name = ''DB-Trap-Alpha'', region = ''EU-West'',
      status = under_attack, uptime = ''2d 5h'', requests = 12890\<rparr>,
     \<lparr>node_id = ''n3'', node_name = ''SSH-Decoy-X'', region = ''AP-South'',
      status = active, uptime = ''45d 1h'', requests = 890\<rparr>]"

definition initial_dashboard :: dashboard where
  "initial_dashboard =
    \<lparr>liveThreats = [], isBackendConnected = False, toast = None, attackAlert = None,
     isAlertAcknowledged = False, selectedThreat = None, rebootingIndex = None,
     nodes = initial_nodes, now = 0, timers = [], posted = []\<rparr>"

text \<open>
  \<^verbatim>\<open>
  fetchThreats(20).then((threats) => {
    if (threats.length > 0) { setLiveThreats(threats); setIsBackendConnected(true); }
  });
  \<close>
\<close>

definition seed :: "threat list \<Rightarrow> dashboard \<Rightarrow> dashboard" where
  "seed threats s =
     (if length threats > 0 then s\<lparr>liveThreats := threats, isBackendConnected := True\<rparr> else s)"

section \<open>AlertController and the attack side effect\<close>

text \<open>
  The updater passed to \<open>setNodes\<close> in \<open>onThreat\<close>:
  \<^verbatim>\<open>
  const updated = [...prevNodes];
  updated[0].status = 'under_attack';
  updated[0].requests += 1;
  return updated;
  \<close>
  The copy is shallow: \<open>updated[0]\<close> is the node object of \<open>prevNodes[0]\<close>, written in
  place. Every array ever stored in \<open>nodes\<close> is such a copy of the initial one, so all of
  them hold the same three objects in the same order, and the list of the objects'
  current contents is the whole state. On an empty array \<open>updated[0]\<close> is \<open>undefined\<close>
  and the assignment raises. \<open>requests\<close> is a JavaScript number; the increment is exact
  below \<open>2^53\<close>, the range this model covers.
\<close>

definition mark_under_attack :: "node_status list \<Rightarrow> error + node_status list" where
  "mark_under_attack prevNodes =
     (case prevNodes of
        [] \<Rightarrow> Inl TypeError
      | n # rest \<Rightarrow> Inr (n\<lparr>status := under_attack, requests := requests n + 1\<rparr> # rest))"

text \<open>
  The \<open>onThreat\<close> callback given to \<open>subscribeToLiveFeed\<close>: the merge, the connected
  flag, the alert and its acknowledged flag, the audio cue (which changes no state and
  whose failure is swallowed), the node update. None of the five state writes is
  guarded by the outcome of the duplicate test inside the first one. An exception of
  the node updater (possible on an empty node array only) is the result of the callback.
\<close>

definition onThreat :: "threat \<Rightarrow> dashboard \<Rightarrow> error + dashboard" where
  "onThreat newThreat s =
     (case mark_under_attack (nodes s) of
        Inl e \<Rightarrow> Inl e
      | Inr updated \<Rightarrow>
          Inr (s\<lparr>liveThreats := merge_arrival (liveThreats s) newThreat,
                 isBackendConnected := True,
                 attackAlert := Some newThreat,
                 isAlertAcknowledged := False,
                 nodes := updated\<rparr>))"

text \<open>The buttons of the alert panel: acknowledge, dismiss, view details.\<close>

definition acknowledge :: "dashboard \<Rightarrow> dashboard" where
  "acknowledge s =
     (if attackAlert s \<noteq> None \<and> \<not> isAlertAcknowledged s
      then s\<lparr>isAlertAcknowledged := True\<rparr> else s)"

definition dismiss :: "dashboard \<Rightarrow> dashboard" where
  "dismiss s = s\<lparr>attackAlert := None\<rparr>"

definition viewDetails :: "dashboard \<Rightarrow> dashboard" where
  "viewDetails s =
     (if attackAlert s \<noteq> None
      then s\<lparr>selectedThreat := attackAlert s, attackAlert := None\<rparr> else s)"

text \<open>
  The three states of the AlertController, read off the two cells as the rendering does
  (\<open>attackAlert && !isAlertAcknowledged\<close> shows the flashing border).
\<close>

datatype alert_state = Idle | Active_Unacknowledged | Active_Acknowledged

definition alert_state_of :: "dashboard \<Rightarrow> alert_state" where
  "alert_state_of s =
     (case attackAlert s of
        None \<Rightarrow> Idle
      | Some t \<Rightarrow> if isAlertAcknowledged s then Active_Acknowledged else Active_Unacknowledged)"

section \<open>NodeStatusSimulator: manual reboot\<close>

text \<open>
  \<^verbatim>\<open>
  const handleNodeAction = (index: number) => {
    setRebootingIndex(index);
    setTimeout(() => {
      setRebootingIndex(null);
      const newNodes = [...nodes];
      newNodes[index].status = newNodes[index].status === 'active' ? 'offline' : 'active';
      newNodes[index].uptime = '0d 0h';
      setNodes(newNodes);
    }, 2500);
  };
  \<close>
  \<open>rebootingIndex\<close> is one cell for all nodes. The callback copies the \<open>nodes\<close> array of
  the render that created it; that copy holds the same node objects as the current
  array (see \<open>mark_under_attack\<close>), so the callback reads and writes the current node.
\<close>

definition handleNodeAction :: "nat \<Rightarrow> dashboard \<Rightarrow> dashboard" where
  "handleNodeAction index s =
     s\<lparr>rebootingIndex := Some index, timers := timers s @ [(now s + 2500, index)]\<rparr>"

definition toggle_status :: "node_state \<Rightarrow> node_state" where
  "toggle_status st = (if st = active then offline else active)"

definition reboot_timeout :: "nat \<Rightarrow> dashboard \<Rightarrow> error + dashboard" where
  "reboot_timeout index s =
     (if index < length (nodes s)
      then Inr (s\<lparr>rebootingIndex := None,
                  nodes := (nodes s)[index :=
                    (nodes s ! index)\<lparr>status := toggle_status (status (nodes s ! index)),
                                       uptime := ''0d 0h''\<rparr>]\<rparr>)
      else Inl TypeError)"

text \<open>
  The reboot button of node \<open>i\<close>, rendered once for each element of \<open>nodes\<close>:
  \<^verbatim>\<open>onClick={() => handleNodeAction(i)} disabled={rebootingIndex === i}\<close>.
  A click on a disabled button, or on a button that does not exist, does nothing.
\<close>

definition click_reboot :: "nat \<Rightarrow> dashboard \<Rightarrow> dashboard" where
  "click_reboot i s =
     (if i < length (nodes s) \<and> rebootingIndex s \<noteq> Some i then handleNodeAction i s else s)"

text \<open>
  The passing of time. The callbacks that are due run in the order in which they were
  registered (all have the same delay); an exception raised by one of them is reported
  and ends that callback only, after its \<open>setRebootingIndex(null)\<close>.
\<close>

fun run_timeouts :: "(nat \<times> nat) list \<Rightarrow> dashboard \<Rightarrow> dashboard" where
  "run_timeouts [] s = s"
| "run_timeouts ((due, index) # rest) s =
     run_timeouts rest
       (case reboot_timeout index s of
          Inr s' \<Rightarrow> s'
        | Inl e \<Rightarrow> s\<lparr>rebootingIndex := None\<rparr>)"

definition advance :: "nat \<Rightarrow> dashboard \<Rightarrow> dashboard" where
  "advance ms s =
     (let t = now s + ms in
      run_timeouts (filter (\<lambda>(due, index). due \<le> t) (timers s))
        (s\<lparr>now := t, timers := filter (\<lambda>(due, index). \<not> due \<le> t) (timers s)\<rparr>))"

section \<open>Block-IP (\<open>blockIP\<close> in src/services/api.ts, \<open>handleBlockIP\<close> in src/App.tsx)\<close>

text \<open>
  What the \<open>fetch\<close> of \<open>blockIP\<close> can meet: a rejected promise (no response), or a
  response with its \<open>ok\<close> flag and a body that \<open>response.json()\<close> either fails to parse
  or parses into the declared result type \<open>{ success: boolean; message: string }\<close>.
\<close>

datatype json_body = Malformed | Parsed bool string

datatype fetch_outcome = Rejected | Response bool json_body

record block_result =
  res_success :: bool
  res_message :: string

text \<open>
  \<^verbatim>\<open>
  try {
    const response = await fetch(..., { method: 'POST', ..., body: JSON.stringify({ ip }) });
    if (!response.ok) throw new Error('Failed to block IP');
    return await response.json();
  } catch (error) {
    console.error('Error blocking IP:', error);
    return { success: false, message: 'Failed to block IP address' };
  }
  \<close>
  \<open>blockIP_try\<close> is the body of the \<open>try\<close>, \<open>blockIP\<close> the whole function.
\<close>

definition blockIP_try :: "fetch_outcome \<Rightarrow> error + block_result" where
  "blockIP_try outcome =
     (case outcome of
        Rejected \<Rightarrow> Inl (Error ''fetch rejected'')
      | Response ok body \<Rightarrow>
          if \<not> ok then Inl (Error ''Failed to block IP'')
          else (case body of
                  Malformed \<Rightarrow> Inl (Error ''invalid JSON'')
                | Parsed b m \<Rightarrow> Inr \<lparr>res_success = b, res_message = m\<rparr>))"

definition blockIP :: "fetch_outcome \<Rightarrow> error + block_result" where
  "blockIP outcome =
     (case blockIP_try outcome of
        Inl e \<Rightarrow> Inr \<lparr>res_success = False, res_message = ''Failed to block IP address''\<rparr>
      | Inr r \<Rightarrow> Inr r)"

text \<open>
  \<^verbatim>\<open>
  const result = await blockIP(ip);
  if (result.success) { setToast({ message: result.message, type: 'success' }); setSelectedThreat(null); }
  else { setToast({ message: result.message, type: 'error' }); }
  \<close>
  The one request of the call is recorded in \<open>posted\<close>.
\<close>

definition handleBlockIP :: "string \<Rightarrow> fetch_outcome \<Rightarrow> dashboard \<Rightarrow> error + dashboard" where
  "handleBlockIP ip_addr outcome s =
     (case blockIP outcome of
        Inl e \<Rightarrow> Inl e
      | Inr result \<Rightarrow>
          if res_success result
          then Inr (s\<lparr>toast := Some \<lparr>toast_message = res_message result, toast_type = success\<rparr>,
                      selectedThreat := None,
                      posted := posted s @ [ip_addr]\<rparr>)
          else Inr (s\<lparr>toast := Some \<lparr>toast_message = res_message result, toast_type = error\<rparr>,
                      posted := posted s @ [ip_addr]\<rparr>))"

section \<open>Record-to-Threat transform (src/services/api.ts)\<close>

text \<open>The interface \<open>BackendAttackLog\<close>; its fields \<open>id\<close>, \<open>timestamp\<close> and \<open>method\<close> are
  \<open>log_id\<close>, \<open>log_timestamp\<close> and \<open>http_method\<close> here.\<close>

record backend_attack_log =
  log_id :: "54 word"
  log_timestamp :: string
  ip_address :: string
  country :: string
  city :: string
  endpoint :: string
  http_method :: string
  payload :: "string option"
  user_agent :: string
  attack_type :: string

text \<open>
  \<open>THREAT_IMAGES\<close> and the \<open>severityMap\<close> of \<open>getSeverity\<close> are object literals read
  with \<open>table[key] || fallback\<close>; the model looks the key up among the literal's own
  properties (keys that name inherited properties of \<open>Object.prototype\<close> are outside it).
\<close>

definition THREAT_IMAGES :: "(string \<times> string) list" where
  "THREAT_IMAGES =
    [(''SQL Injection'', ''https://images.unsplash.com/photo-1558494949-efc02570fbc9?q=80&w=1000&auto=format&fit=crop''),
     (''XSS'', ''https://images.unsplash.com/photo-1526374965328-7f61d4dc18c5?q=80&w=1000&auto=format&fit=crop''),
     (''Brute Force'', ''https://images.unsplash.com/photo-1614064641938-3bbee52942c7?q=80&w=1000&auto=format&fit=crop''),
     (''Directory Traversal'', ''https://images.unsplash.com/photo-1516110833967-0b5716ca1387?q=80&w=1000&auto=format&fit=crop''),
     (''Port Scan'', ''https://images.unsplash.com/photo-1544197150-b99a580bbcbf?q=80&w=1000&auto=format&fit=crop''),
     (''Command Injection'', ''https://images.unsplash.com/photo-1555949963-aa79dcee981c?q=80&w=1000&auto=format&fit=crop''),
     (''default'', ''https://images.unsplash.com/photo-1550751827-4bd374c3f58b?q=80&w=1000&auto=format&fit=crop'')]"

definition getSeverity :: "string \<Rightarrow> severity" where
  "getSeverity attackType =
     (case map_of
        [(''SQL Injection'', critical), (''Command Injection'', critical),
         (''XSS'', high), (''Directory Traversal'', high),
         (''Brute Force'', medium), (''Port Scan'', low), (''Normal'', low)] attackType of
        Some sev \<Rightarrow> sev
      | None \<Rightarrow> medium)"

text \<open>
  \<^verbatim>\<open>
  if (attackType === 'Normal') return Math.floor(Math.random() * 30) + 20;
  return Math.floor(Math.random() * 15) + 85; // 85-100 for attacks
  \<close>
  \<open>Math.random()\<close> returns a double \<open>r\<close> with \<open>0 \<le> r < 1\<close>; it is an argument here. A
  double in that range is \<open>significand / 2 ^ scale\<close> with a significand of at most 53
  bits and a scale of at most 1074 (the subnormal spacing), and every such fraction
  below 1 is a double.
\<close>

record random_draw =
  significand :: nat
  scale :: nat


text \<open>
  The product \<open>Math.random() * c\<close> is the exact product rounded to the nearest double,
  ties to the even significand. For an integer \<open>c\<close> the exact product is
  \<open>n / 2 ^ scale\<close> with \<open>n = significand * c\<close>; \<open>round_to_double n\<close> keeps the leading 53
  bits of \<open>n\<close>, rounded so, and the rounded product is \<open>round_to_double n / 2 ^ scale\<close>
  (a product with more than 53 bits lies in the normal range, and none overflows).
  \<open>Math.floor\<close> of it is the integer quotient, and adding 20 or 85 is exact.
\<close>

fun bit_length :: "nat \<Rightarrow> nat" where
  "bit_length n = (if n = 0 then 0 else Suc (bit_length (n div 2)))"

declare bit_length.simps [simp del]

definition round_to_double :: "nat \<Rightarrow> nat" where
  "round_to_double n =
     (let d = bit_length n - 53 in
      if d = 0 then n
      else
        let q = n div 2 ^ d; rest = n mod 2 ^ d; half = 2 ^ (d - 1)
        in (if rest > half \<or> (rest = half \<and> odd q) then q + 1 else q) * 2 ^ d)"

definition floor_random_times :: "nat \<Rightarrow> random_draw \<Rightarrow> int" where
  "floor_random_times c d = int (round_to_double (significand d * c) div 2 ^ scale d)"

definition getConfidence :: "string \<Rightarrow> random_draw \<Rightarrow> int" where
  "getConfidence attackType d =
     (if attackType = ''Normal'' then floor_random_times 30 d + 20
      else floor_random_times 15 d + 85)"

text \<open>
  \<open>String(log.id)\<close>. The \<open>id\<close> of a record is an integer that a JavaScript number holds
  exactly, from \<open>-2^53\<close> to \<open>2^53 - 1\<close> (the signed values of a 54-bit word); for these
  \<open>String\<close> gives the decimal digits, with a sign when negative.
\<close>

fun decimal :: "nat \<Rightarrow> string" where
  "decimal n =
     (if n < 10 then [char_of (48 + n)]
      else decimal (n div 10) @ [char_of (48 + n mod 10)])"

declare decimal.simps [simp del]

definition String_of :: "54 word \<Rightarrow> string" where
  "String_of n =
     (if sint n < 0 then CHR ''-'' # decimal (nat (- sint n)) else decimal (nat (sint n)))"

text \<open>
  \<open>transformToThreat\<close>. A string is falsy exactly when empty, \<open>null\<close> is falsy.
  \<open>toLocaleTimeString\<close>, applied to \<open>new Date(log.timestamp + 'Z')\<close>, is the platform's
  and comes in as the argument \<open>fmt\<close>; \<open>d\<close> is the random draw of \<open>getConfidence\<close>;
  the parameter \<open>log\<close> is \<open>lg\<close>.
\<close>

definition transformToThreat ::
  "(string \<Rightarrow> string) \<Rightarrow> random_draw \<Rightarrow> backend_attack_log \<Rightarrow> threat" where
  \<open>transformToThreat fmt d lg =
     (let loc = (if city lg \<noteq> [] \<and> city lg \<noteq> ''Unknown''
                 then city lg @ '', '' @ country lg
                 else if country lg \<noteq> [] then country lg else ''Unknown'');
          attackType = (if attack_type lg \<noteq> [] then attack_type lg else ''Unknown'');
          img = (case map_of THREAT_IMAGES attackType of
                   Some u \<Rightarrow> if u \<noteq> [] then u else the (map_of THREAT_IMAGES ''default'')
                 | None \<Rightarrow> the (map_of THREAT_IMAGES ''default''))
      in \<lparr>threat_id = String_of (log_id lg),
          threat_type = attackType,
          ip = ip_address lg,
          location = loc,
          confidence = getConfidence attackType d,
          severity = getSeverity attackType,
          timestamp = fmt (log_timestamp lg @ ''Z''),
          image = img,
          description =
            (case payload lg of
               Some p \<Rightarrow>
                 if p \<noteq> []
                 then ''Payload detected: "'' @ take 100 p @ (if length p > 100 then ''...'' else [])
                      @ ''". Target: '' @ endpoint lg @ '' ['' @ http_method lg @ '']''
                 else ''Request to '' @ endpoint lg @ '' endpoint via '' @ http_method lg
                      @ ''. User-Agent: ''
                      @ (if take 50 (user_agent lg) \<noteq> [] then take 50 (user_agent lg) else ''Unknown'')
                      @ ''...''
             | None \<Rightarrow>
                 ''Request to '' @ endpoint lg @ '' endpoint via '' @ http_method lg
                 @ ''. User-Agent: ''
                 @ (if take 50 (user_agent lg) \<noteq> [] then take 50 (user_agent lg) else ''Unknown'')
                 @ ''...'')\<rparr>)\<close>

section \<open>FilterEngine: \<open>filteredThreats\<close>\<close>






definition spec_contains_ci :: "(string \<Rightarrow> string) \<Rightarrow> string \<Rightarrow> string \<Rightarrow> bool" where
  "spec_contains_ci toLowerCase field q \<longleftrightarrow>
     (\<exists>pre post. toLowerCase field = pre @ toLowerCase q @ post)"



section \<open>Concrete inputs\<close>

text \<open>A live threat with a given id, and the dashboard after a seed of three threats.\<close>

definition sample_threat :: "string \<Rightarrow> threat" where
  "sample_threat i =
     \<lparr>threat_id = i, threat_type = ''XSS'', ip = ''192.0.2.7'', location = ''Oslo, NO'',
      confidence = 90, severity = high, timestamp = ''12:00:00 UTC'', image = [],
      description = ''Request to /search endpoint via GET. User-Agent: curl...''\<rparr>"

definition seeded_dashboard :: dashboard where
  "seeded_dashboard =
     seed [sample_threat ''a'', sample_threat ''b'', sample_threat ''c''] initial_dashboard"

text \<open>
  The seeded dashboard after a stream arrival with the stored id \<open>b\<close> and a click on
  "Acknowledge".
\<close>

definition acknowledged_dashboard :: dashboard where
  "acknowledged_dashboard =
     acknowledge
       (case onThreat (sample_threat ''b'') seeded_dashboard of
          Inr s \<Rightarrow> s
        | Inl e \<Rightarrow> seeded_dashboard)"

text \<open>
  Reboot traces from the initial dashboard. Node 0 is rebooted at time 0 and node 1 at
  time 1000; \<open>before_second_click\<close> is the state at time 1500. In \<open>reboot_twice_trace\<close>
  the button of node 0 is clicked again then, in \<open>reboot_once_trace\<close> it is not; both
  run on to time 4500.
\<close>

definition before_second_click :: dashboard where
  "before_second_click =
     advance 500 (click_reboot 1 (advance 1000 (click_reboot 0 initial_dashboard)))"

definition reboot_twice_trace :: dashboard where
  "reboot_twice_trace = advance 3000 (click_reboot 0 before_second_click)"

definition reboot_once_trace :: dashboard where
  "reboot_once_trace = advance 3000 before_second_click"

text \<open>
  A backend record with id 1, and the dashboard after it arrives on the stream as the
  first live threat. \<open>allThreats_of\<close> is \<open>allThreats\<close> on the cells of a dashboard.
\<close>

definition sample_log :: backend_attack_log where
  "sample_log =
     \<lparr>log_id = 1, log_timestamp = ''2025-01-01T10:00:00'', ip_address = ''198.51.100.9'',
      country = ''NO'', city = ''Oslo'', endpoint = ''/login'', http_method = ''POST'',
      payload = Some ''admin OR 1=1'', user_agent = ''curl/8.0'', attack_type = ''SQL Injection''\<rparr>"

definition allThreats_of :: "dashboard \<Rightarrow> threat list" where
  "allThreats_of s = allThreats (isBackendConnected s) (liveThreats s)"

definition one_live_dashboard :: dashboard where
  "one_live_dashboard =
     (case onThreat (transformToThreat (\<lambda>t. t) \<lparr>significand = 1, scale = 1\<rparr> sample_log)
             initial_dashboard of
        Inr s \<Rightarrow> s
      | Inl e \<Rightarrow> initial_dashboard)"

text \<open>
  A click on a threat card (\<open>onClick={() => setSelectedThreat(threat)}\<close>) opens the
  detail view; \<open>viewing_dashboard\<close> has the detail view of threat \<open>a\<close> open.
  \<open>is_failure\<close> holds of the outcomes in which the transport, the HTTP status or the
  body's JSON fails.
\<close>

definition selectThreat :: "threat \<Rightarrow> dashboard \<Rightarrow> dashboard" where
  "selectThreat t s = s\<lparr>selectedThreat := Some t\<rparr>"

definition viewing_dashboard :: dashboard where
  "viewing_dashboard = selectThreat (sample_threat ''a'') seeded_dashboard"

definition is_failure :: "fetch_outcome \<Rightarrow> bool" where
  "is_failure outcome \<longleftrightarrow>
     (case outcome of
        Rejected \<Rightarrow> True
      | Response ok body \<Rightarrow> \<not> ok \<or> body = Malformed)"





text \<open>
  A reboot trace from the initial dashboard, in which node 1 is \<open>under_attack\<close>: node 1
  is rebooted at time 0, node 0 at time 100; \<open>before_overlapping_click\<close> is the state at
  time 200, and \<open>overlapping_click\<close> the state after a click on the button of node 1
  then.
\<close>

definition before_overlapping_click :: dashboard where
  "before_overlapping_click =
     advance 100 (click_reboot 0 (advance 100 (click_reboot 1 initial_dashboard)))"

definition overlapping_click :: dashboard where
  "overlapping_click = click_reboot 1 before_overlapping_click"

section \<open>Properties of the ThreatStore\<close>

lemma exists_in_iff: "exists_in prev t \<longleftrightarrow> threat_id t \<in> set (map threat_id prev)"
proof
  assume "exists_in prev t"
  then obtain s where "s \<in> set prev" and "threat_id s = threat_id t"
    by (auto simp: exists_in_def list_ex_iff)
  then have "threat_id t \<in> threat_id ` set prev" by (metis imageI)
  then show "threat_id t \<in> set (map threat_id prev)" by simp
next
  assume "threat_id t \<in> set (map threat_id prev)"
  then show "exists_in prev t"
    by (auto simp: exists_in_def list_ex_iff)
qed

lemma length_MOCK_THREAT_LOGS: "length MOCK_THREAT_LOGS = 6"
  by (simp add: MOCK_THREAT_LOGS_def)

lemma merge_arrival_invariant:
  assumes "distinct (map threat_id prev)" and "length prev \<le> 50"
  shows "distinct (map threat_id (merge_arrival prev t)) \<and> length (merge_arrival prev t) \<le> 50"
proof (cases "exists_in prev t")
  case True
  with assms show ?thesis by (simp add: merge_arrival_def)
next
  case False
  then have fresh: "threat_id t \<notin> set (map threat_id prev)"
    by (simp add: exists_in_iff)
  with assms(1) have "distinct (map threat_id (t # prev))" by simp
  then have "distinct (take 50 (map threat_id (t # prev)))"
    by (rule distinct_take)
  then have "distinct (map threat_id (take 50 (t # prev)))"
    by (simp only: take_map)
  with False show ?thesis by (simp add: merge_arrival_def)
qed

lemma arrivals_invariant:
  "distinct (map threat_id store) \<Longrightarrow> length store \<le> 50 \<Longrightarrow>
   distinct (map threat_id (arrivals store ts)) \<and> length (arrivals store ts) \<le> 50"
  unfolding arrivals_def
proof (induction ts arbitrary: store)
  case Nil
  then show ?case by simp
next
  case (Cons t ts)
  from merge_arrival_invariant [OF Cons.prems]
  have "distinct (map threat_id (merge_arrival store t))"
    and "length (merge_arrival store t) \<le> 50" by simp_all
  from Cons.IH [OF this] show ?case by simp
qed

text \<open>
  Claim C1. Arrival merge: when the id of the arriving threat is the id of a stored
  entry, the store is returned as it is; otherwise the threat becomes the first element
  and the result keeps the first 50 entries. From the empty initial store (and from any
  store with distinct ids and at most 50 entries), every sequence of arrivals, repeated
  ids or not, ends in a store with distinct ids and at most 50 entries.
\<close>

theorem merge_arrival_dedup_bounded:
  "((\<exists>s \<in> set prev. threat_id s = threat_id t) \<longrightarrow> merge_arrival prev t = prev) \<and>
   ((\<forall>s \<in> set prev. threat_id s \<noteq> threat_id t) \<longrightarrow>
      merge_arrival prev t = take 50 (t # prev) \<and>
      hd (merge_arrival prev t) = t \<and>
      length (merge_arrival prev t) = min 50 (Suc (length prev))) \<and>
   distinct (map threat_id (arrivals [] ts)) \<and> length (arrivals [] ts) \<le> 50 \<and>
   (distinct (map threat_id store) \<and> length store \<le> 50 \<longrightarrow>
      distinct (map threat_id (arrivals store ts)) \<and> length (arrivals store ts) \<le> 50)"
proof -
  have dup: "(\<exists>s \<in> set prev. threat_id s = threat_id t) \<longrightarrow> merge_arrival prev t = prev"
    by (auto simp: merge_arrival_def exists_in_def list_ex_iff)
  have fresh: "(\<forall>s \<in> set prev. threat_id s \<noteq> threat_id t) \<longrightarrow>
      merge_arrival prev t = take 50 (t # prev) \<and>
      hd (merge_arrival prev t) = t \<and>
      length (merge_arrival prev t) = min 50 (Suc (length prev))"
    by (auto simp: merge_arrival_def exists_in_def list_ex_iff)
  have init: "distinct (map threat_id (arrivals [] ts)) \<and> length (arrivals [] ts) \<le> 50"
    by (rule arrivals_invariant) simp_all
  have inv: "distinct (map threat_id store) \<and> length store \<le> 50 \<longrightarrow>
      distinct (map threat_id (arrivals store ts)) \<and> length (arrivals store ts) \<le> 50"
    using arrivals_invariant by blast
  from dup fresh init inv show ?thesis by blast
qed

theorem merge_arrival_dedup_bounded_witness:
  "merge_arrival [sample_threat ''a'', sample_threat ''b'', sample_threat ''c''] (sample_threat ''b'')
     = [sample_threat ''a'', sample_threat ''b'', sample_threat ''c''] \<and>
   merge_arrival [sample_threat ''a'', sample_threat ''b'', sample_threat ''c''] (sample_threat ''d'')
     = [sample_threat ''d'', sample_threat ''a'', sample_threat ''b'', sample_threat ''c''] \<and>
   distinct (map threat_id
     (arrivals [sample_threat ''a''] [sample_threat ''b'', sample_threat ''a'', sample_threat ''b''])) \<and>
   length (arrivals [sample_threat ''a''] [sample_threat ''b'', sample_threat ''a'', sample_threat ''b''])
     \<le> 50"
  using merge_arrival_dedup_bounded
          [of "[sample_threat ''a'', sample_threat ''b'', sample_threat ''c'']" "sample_threat ''b''"
              "[]" "[sample_threat ''a'']"]
        merge_arrival_dedup_bounded
          [of "[sample_threat ''a'', sample_threat ''b'', sample_threat ''c'']" "sample_threat ''d''"
              "[sample_threat ''b'', sample_threat ''a'', sample_threat ''b'']" "[sample_threat ''a'']"]
  by (simp add: sample_threat_def)

text \<open>
  Claim C3. Display composition: with \<open>connected\<close> true and a non-empty live store, the
  displayed list is the live store followed by the first \<open>max(0, 6 - liveCount)\<close>
  entries of the fallback corpus (six entries in all below six live threats, the live
  store alone from six on); otherwise it is the whole fallback corpus. It is never empty.
\<close>

theorem allThreats_composition:
  "(conn \<and> live \<noteq> [] \<longrightarrow>
      allThreats conn live = live @ take (6 - length live) MOCK_THREAT_LOGS \<and>
      length (take (6 - length live) MOCK_THREAT_LOGS) = nat (max 0 (6 - int (length live))) \<and>
      (length live < 6 \<longrightarrow> length (allThreats conn live) = 6) \<and>
      (6 \<le> length live \<longrightarrow> allThreats conn live = live)) \<and>
   (\<not> conn \<or> live = [] \<longrightarrow> allThreats conn live = MOCK_THREAT_LOGS) \<and>
   length MOCK_THREAT_LOGS = 6 \<and>
   allThreats conn live \<noteq> []"
proof -
  have nat_eq: "nat (max 0 (6 - int (length live))) = 6 - length live"
    by linarith
  have a: "conn \<and> live \<noteq> [] \<longrightarrow>
      allThreats conn live = live @ take (6 - length live) MOCK_THREAT_LOGS"
    by (simp only: allThreats_def nat_eq) simp
  have b: "length (take (6 - length live) MOCK_THREAT_LOGS) = nat (max 0 (6 - int (length live)))"
    by (simp only: nat_eq) (simp add: length_MOCK_THREAT_LOGS)
  have c: "conn \<and> live \<noteq> [] \<longrightarrow> length live < 6 \<longrightarrow> length (allThreats conn live) = 6"
    using a by (auto simp: length_MOCK_THREAT_LOGS)
  have d: "conn \<and> live \<noteq> [] \<longrightarrow> 6 \<le> length live \<longrightarrow> allThreats conn live = live"
    using a by auto
  have e: "\<not> conn \<or> live = [] \<longrightarrow> allThreats conn live = MOCK_THREAT_LOGS"
    by (auto simp: allThreats_def)
  have f: "allThreats conn live \<noteq> []"
    using length_MOCK_THREAT_LOGS by (auto simp: allThreats_def)
  from a b c d e f length_MOCK_THREAT_LOGS show ?thesis by blast
qed

theorem allThreats_composition_witness:
  "allThreats True [sample_threat ''a'', sample_threat ''b'', sample_threat ''c'', sample_threat ''d'']
     = [sample_threat ''a'', sample_threat ''b'', sample_threat ''c'', sample_threat ''d'']
       @ take 2 MOCK_THREAT_LOGS \<and>
   length (allThreats True
     [sample_threat ''a'', sample_threat ''b'', sample_threat ''c'', sample_threat ''d'']) = 6 \<and>
   allThreats False [] = MOCK_THREAT_LOGS"
  using allThreats_composition
          [of True "[sample_threat ''a'', sample_threat ''b'', sample_threat ''c'', sample_threat ''d'']"]
        allThreats_composition [of False "[]"]
  by simp

section \<open>Properties of the AlertController\<close>

lemma onThreat_total:
  "nodes s \<noteq> [] \<Longrightarrow>
   onThreat t s =
     Inr (s\<lparr>liveThreats := merge_arrival (liveThreats s) t, isBackendConnected := True,
            attackAlert := Some t, isAlertAcknowledged := False,
            nodes := (hd (nodes s))\<lparr>status := under_attack, requests := requests (hd (nodes s)) + 1\<rparr>
                     # tl (nodes s)\<rparr>)"
  by (cases "nodes s") (simp_all add: onThreat_def mark_under_attack_def)

text \<open>
  Claim C2, as stated, fails. In the seeded store \<open>[a, b, c]\<close> with the AlertController
  idle, a stream arrival with the stored id \<open>b\<close> leaves the store as it is and moves the
  AlertController to Active-Unacknowledged with \<open>b\<close> as the current alert.
\<close>

theorem duplicate_arrival_raises_alert:
  "exists_in (liveThreats seeded_dashboard) (sample_threat ''b'') \<and>
   alert_state_of seeded_dashboard = Idle \<and>
   map_sum id alert_state_of (onThreat (sample_threat ''b'') seeded_dashboard)
     = Inr Active_Unacknowledged \<and>
   map_sum id attackAlert (onThreat (sample_threat ''b'') seeded_dashboard)
     = Inr (Some (sample_threat ''b'')) \<and>
   map_sum id liveThreats (onThreat (sample_threat ''b'') seeded_dashboard)
     = Inr (liveThreats seeded_dashboard)"
  by (simp add: onThreat_total seeded_dashboard_def seed_def initial_dashboard_def initial_nodes_def
      exists_in_def alert_state_of_def merge_arrival_def sample_threat_def)

text \<open>
  Claim C2, amended. Every stream arrival, whether or not its id is already in the
  ThreatStore, sets the current alert to the arriving threat and clears the acknowledged
  flag, so the AlertController enters Active-Unacknowledged; an arrival with a stored id
  leaves the ThreatStore alone unchanged, one with a new id is merged into it.
\<close>

theorem onThreat_always_alerts:
  "nodes s \<noteq> [] \<Longrightarrow>
   \<exists>s'. onThreat t s = Inr s' \<and>
        attackAlert s' = Some t \<and> isAlertAcknowledged s' = False \<and>
        alert_state_of s' = Active_Unacknowledged \<and>
        (exists_in (liveThreats s) t \<longrightarrow> liveThreats s' = liveThreats s) \<and>
        (\<not> exists_in (liveThreats s) t \<longrightarrow> liveThreats s' = take 50 (t # liveThreats s))"
  by (simp add: onThreat_total alert_state_of_def merge_arrival_def)

theorem onThreat_always_alerts_witness:
  "nodes acknowledged_dashboard \<noteq> [] \<and>
   exists_in (liveThreats acknowledged_dashboard) (sample_threat ''b'') \<and>
   alert_state_of acknowledged_dashboard = Active_Acknowledged \<and>
   (\<exists>s'. onThreat (sample_threat ''b'') acknowledged_dashboard = Inr s' \<and>
         alert_state_of s' = Active_Unacknowledged \<and>
         liveThreats s' = liveThreats seeded_dashboard)"
  using onThreat_always_alerts [of acknowledged_dashboard "sample_threat ''b''"]
  by (simp add: onThreat_total acknowledged_dashboard_def seeded_dashboard_def seed_def
      initial_dashboard_def initial_nodes_def exists_in_def alert_state_of_def merge_arrival_def
      sample_threat_def acknowledge_def)

text \<open>
  Claim C4. Each entry into Active-Unacknowledged (each run of \<open>onThreat\<close>) sets the
  status of the node at index 0 to \<open>under_attack\<close> and adds exactly 1 to its \<open>requests\<close>;
  the id, name, region and uptime of node 0 and every field of the other nodes stay as
  they were.
\<close>

theorem onThreat_marks_node_zero:
  "nodes s \<noteq> [] \<Longrightarrow>
   \<exists>s'. onThreat t s = Inr s' \<and>
        alert_state_of s' = Active_Unacknowledged \<and>
        length (nodes s') = length (nodes s) \<and>
        status (nodes s' ! 0) = under_attack \<and>
        requests (nodes s' ! 0) = requests (nodes s ! 0) + 1 \<and>
        node_id (nodes s' ! 0) = node_id (nodes s ! 0) \<and>
        node_name (nodes s' ! 0) = node_name (nodes s ! 0) \<and>
        region (nodes s' ! 0) = region (nodes s ! 0) \<and>
        uptime (nodes s' ! 0) = uptime (nodes s ! 0) \<and>
        (\<forall>i. 0 < i \<and> i < length (nodes s) \<longrightarrow> nodes s' ! i = nodes s ! i)"
proof -
  assume ne: "nodes s \<noteq> []"
  then obtain n rest where ns: "nodes s = n # rest" by (cases "nodes s") auto
  let ?s' = "s\<lparr>liveThreats := merge_arrival (liveThreats s) t, isBackendConnected := True,
            attackAlert := Some t, isAlertAcknowledged := False,
            nodes := n\<lparr>status := under_attack, requests := requests n + 1\<rparr> # rest\<rparr>"
  have run: "onThreat t s = Inr ?s'"
    using onThreat_total [OF ne] ns by simp
  have tail: "\<forall>i. 0 < i \<and> i < length (nodes s) \<longrightarrow> nodes ?s' ! i = nodes s ! i"
    using ns by (auto simp: nth_Cons')
  show ?thesis
    using run tail ns by (simp add: alert_state_of_def)
qed

theorem onThreat_marks_node_zero_witness:
  "nodes seeded_dashboard \<noteq> [] \<and>
   (\<exists>s'. onThreat (sample_threat ''d'') seeded_dashboard = Inr s' \<and>
         nodes s' =
           [\<lparr>node_id = ''n1'', node_name = ''Web-Honeypot-01'', region = ''US-East'',
             status = under_attack, uptime = ''14d 2h'', requests = 4522\<rparr>,
            initial_nodes ! 1, initial_nodes ! 2])"
  using onThreat_marks_node_zero [of seeded_dashboard "sample_threat ''d''"]
  by (simp add: onThreat_total seeded_dashboard_def seed_def initial_dashboard_def initial_nodes_def)

section \<open>Properties of the NodeStatusSimulator\<close>

text \<open>
  While \<open>rebootingIndex\<close> points at a node, the button of that node is disabled and a
  click on it changes nothing.
\<close>

lemma click_reboot_disabled: "rebootingIndex s = Some i \<Longrightarrow> click_reboot i s = s"
  by (simp add: click_reboot_def)

text \<open>
  Claim C5, the code at the failing input. At time 1500 the reboot of node 0 started at
  time 0 is still pending, and \<open>rebootingIndex\<close> points at node 1, whose reboot started
  at time 1000; the button of node 0 is enabled. A click on it registers a second
  timeout for node 0. At time 2500 the first timeout clears \<open>rebootingIndex\<close> while the
  reboots of node 1 and node 0 are pending, and by time 4500 the status of node 0 has
  flipped twice, back to \<open>active\<close>; without the second click it is \<open>offline\<close>.
\<close>

theorem second_reboot_while_pending_takes_effect:
  "(2500, 0) \<in> set (timers before_second_click) \<and>
   now before_second_click = 1500 \<and>
   rebootingIndex before_second_click = Some 1 \<and>
   timers (click_reboot 0 before_second_click) = [(2500, 0), (3500, 1), (4000, 0)] \<and>
   rebootingIndex (advance 1000 (click_reboot 0 before_second_click)) = None \<and>
   timers (advance 1000 (click_reboot 0 before_second_click)) = [(3500, 1), (4000, 0)] \<and>
   status (nodes initial_dashboard ! 0) = active \<and>
   status (nodes reboot_once_trace ! 0) = offline \<and>
   status (nodes reboot_twice_trace ! 0) = active"
  by (simp add: reboot_twice_trace_def reboot_once_trace_def before_second_click_def
      initial_dashboard_def initial_nodes_def advance_def click_reboot_def
      handleNodeAction_def reboot_timeout_def toggle_status_def)

text \<open>
  The timeout of a reboot maps \<open>active\<close> to \<open>offline\<close> and every other status,
  \<open>under_attack\<close> included, to \<open>active\<close>, clears \<open>rebootingIndex\<close> and resets the uptime.
\<close>

lemma reboot_timeout_toggles:
  "index < length (nodes s) \<Longrightarrow>
   \<exists>s'. reboot_timeout index s = Inr s' \<and>
        rebootingIndex s' = None \<and>
        uptime (nodes s' ! index) = ''0d 0h'' \<and>
        status (nodes s' ! index) \<noteq> under_attack \<and>
        (status (nodes s ! index) = active \<longrightarrow> status (nodes s' ! index) = offline) \<and>
        (status (nodes s ! index) = offline \<longrightarrow> status (nodes s' ! index) = active) \<and>
        (status (nodes s ! index) = under_attack \<longrightarrow> status (nodes s' ! index) = active)"
  by (simp add: reboot_timeout_def toggle_status_def)

text \<open>
  With no timeout pending, a click on the enabled button of a node followed by 2500 ms
  toggles the status of that node once.
\<close>

lemma single_reboot_toggles:
  assumes "i < length (nodes s)" and "rebootingIndex s \<noteq> Some i" and "timers s = []"
  shows "status (nodes (advance 2500 (click_reboot i s)) ! i) = toggle_status (status (nodes s ! i)) \<and>
         uptime (nodes (advance 2500 (click_reboot i s)) ! i) = ''0d 0h'' \<and>
         rebootingIndex (advance 2500 (click_reboot i s)) = None"
  using assms
  by (simp add: advance_def click_reboot_def handleNodeAction_def reboot_timeout_def)

text \<open>
  Claim C10, the code at the failing input. At time 200 node 1 is \<open>under_attack\<close> and its
  reboot started at time 0 is pending; \<open>rebootingIndex\<close> points at node 0, rebooted at
  time 100, so the button of node 1 is enabled. The click on it at time 200 registers
  a second timeout for node 1, due at time 2700. At time 2500 the first timeout makes
  node 1 \<open>active\<close>; at time 2700, which is 2500 ms after the click, the second one makes
  it \<open>offline\<close>, not \<open>active\<close>.
\<close>

theorem reboot_of_attacked_node_ends_offline:
  "status (nodes before_overlapping_click ! 1) = under_attack \<and>
   now before_overlapping_click = 200 \<and>
   rebootingIndex before_overlapping_click = Some 0 \<and>
   timers before_overlapping_click = [(2500, 1), (2600, 0)] \<and>
   timers overlapping_click = [(2500, 1), (2600, 0), (2700, 1)] \<and>
   now (advance 2300 overlapping_click) = 2500 \<and>
   status (nodes (advance 2300 overlapping_click) ! 1) = active \<and>
   now (advance 2500 overlapping_click) = 2700 \<and>
   status (nodes (advance 2500 overlapping_click) ! 1) = offline"
  by (simp add: overlapping_click_def before_overlapping_click_def
      initial_dashboard_def initial_nodes_def advance_def click_reboot_def
      handleNodeAction_def reboot_timeout_def toggle_status_def)

section \<open>Properties of the record-to-Threat transform\<close>







lemma String_of_1: "String_of 1 = ''1''"
  by code_simp



section \<open>Properties of the displayed list\<close>

text \<open>
  Claim C9. The duplicate test looks at the live store only. After the backend record
  with id 1 arrives on the stream as the only live threat, the dashboard is connected,
  the live store has distinct ids, and the displayed list of six entries starts with
  that live threat and the fallback entry \<open>1\<close>: two different entries with the id \<open>1\<close>.
\<close>

theorem displayed_list_repeats_id:
  "isBackendConnected one_live_dashboard \<and>
   length (liveThreats one_live_dashboard) = 1 \<and>
   distinct (map threat_id (liveThreats one_live_dashboard)) \<and>
   length (allThreats_of one_live_dashboard) = 6 \<and>
   allThreats_of one_live_dashboard ! 0
     = transformToThreat (\<lambda>t. t) \<lparr>significand = 1, scale = 1\<rparr> sample_log \<and>
   allThreats_of one_live_dashboard ! 1 = MOCK_THREAT_LOGS ! 0 \<and>
   threat_id (allThreats_of one_live_dashboard ! 0) = ''1'' \<and>
   threat_id (allThreats_of one_live_dashboard ! 1) = ''1'' \<and>
   allThreats_of one_live_dashboard ! 0 \<noteq> allThreats_of one_live_dashboard ! 1 \<and>
   \<not> distinct (map threat_id (allThreats_of one_live_dashboard))"
  by (simp add: one_live_dashboard_def allThreats_of_def onThreat_def mark_under_attack_def
      initial_dashboard_def initial_nodes_def merge_arrival_def exists_in_def allThreats_def
      MOCK_THREAT_LOGS_def transformToThreat_def Let_def sample_log_def String_of_1)

section \<open>Properties of Block-IP\<close>

lemma blockIP_cases:
  "blockIP outcome =
     Inr (case outcome of
            Response True (Parsed b m) \<Rightarrow> \<lparr>res_success = b, res_message = m\<rparr>
          | _ \<Rightarrow> \<lparr>res_success = False, res_message = ''Failed to block IP address''\<rparr>)"
  by (simp add: blockIP_def blockIP_try_def split: fetch_outcome.splits json_body.splits bool.splits)

text \<open>
  Claim C8. \<open>blockIP\<close> always returns a result and \<open>handleBlockIP\<close> always completes,
  after exactly one request. When the transport, the HTTP status or the body fails, the
  result is the failure with the generic message, shown as an error toast, and the
  detail view stays as it was; a failure result sent by the server is shown as an error
  toast with the server's message, the detail view again untouched; a success result
  is shown as a success toast and the detail view is closed in the same step.
\<close>

theorem handleBlockIP_outcomes:
  "(\<exists>r. blockIP outcome = Inr r) \<and>
   (\<exists>s'. handleBlockIP ip_addr outcome s = Inr s' \<and>
         posted s' = posted s @ [ip_addr] \<and>
         (is_failure outcome \<longrightarrow>
            blockIP outcome =
              Inr \<lparr>res_success = False, res_message = ''Failed to block IP address''\<rparr> \<and>
            toast s' =
              Some \<lparr>toast_message = ''Failed to block IP address'', toast_type = error\<rparr> \<and>
            selectedThreat s' = selectedThreat s) \<and>
         (\<forall>m. outcome = Response True (Parsed False m) \<longrightarrow>
            toast s' = Some \<lparr>toast_message = m, toast_type = error\<rparr> \<and>
            selectedThreat s' = selectedThreat s) \<and>
         (\<forall>m. outcome = Response True (Parsed True m) \<longrightarrow>
            toast s' = Some \<lparr>toast_message = m, toast_type = success\<rparr> \<and>
            selectedThreat s' = None))"
  by (simp add: handleBlockIP_def blockIP_cases is_failure_def
      split: fetch_outcome.splits json_body.splits bool.splits)

theorem handleBlockIP_outcomes_witness:
  "is_failure Rejected \<and> is_failure (Response False (Parsed True ''blocked'')) \<and>
   is_failure (Response True Malformed) \<and>
   (\<exists>s'. handleBlockIP ''203.0.113.45'' Rejected viewing_dashboard = Inr s' \<and>
         toast s' = Some \<lparr>toast_message = ''Failed to block IP address'', toast_type = error\<rparr> \<and>
         selectedThreat s' = Some (sample_threat ''a'') \<and> posted s' = [''203.0.113.45'']) \<and>
   (\<exists>s'. handleBlockIP ''203.0.113.45'' (Response True (Parsed False ''IP already blocked''))
           viewing_dashboard = Inr s' \<and>
         toast s' = Some \<lparr>toast_message = ''IP already blocked'', toast_type = error\<rparr> \<and>
         selectedThreat s' = Some (sample_threat ''a'')) \<and>
   (\<exists>s'. handleBlockIP ''203.0.113.45'' (Response True (Parsed True ''IP blocked''))
           viewing_dashboard = Inr s' \<and>
         toast s' = Some \<lparr>toast_message = ''IP blocked'', toast_type = success\<rparr> \<and>
         selectedThreat s' = None)"
  using handleBlockIP_outcomes [of Rejected "''203.0.113.45''" viewing_dashboard]
        handleBlockIP_outcomes [of "Response True (Parsed False ''IP already blocked'')"
          "''203.0.113.45''" viewing_dashboard]
        handleBlockIP_outcomes [of "Response True (Parsed True ''IP blocked'')"
          "''203.0.113.45''" viewing_dashboard]
  by (simp add: is_failure_def viewing_dashboard_def selectThreat_def seeded_dashboard_def
      seed_def initial_dashboard_def handleBlockIP_def blockIP_cases)

section \<open>Properties of the FilterEngine\<close>




text \<open>
  For a lower-casing that works character by character, the case-insensitive substring
  is the positional one: some contiguous part of the field has the length of the query
  and agrees with it character by character up to case.
\<close>

lemma spec_contains_ci_positional:
  "spec_contains_ci (map l) field q \<longleftrightarrow>
     (\<exists>pre mid post. field = pre @ mid @ post \<and> list_all2 (\<lambda>a b. l a = l b) mid q)"
proof -
  have all2: "list_all2 (\<lambda>a b. l a = l b) xs ys \<longleftrightarrow> map l xs = map l ys" for xs ys
  proof -
    have "list_all2 (\<lambda>a b. l a = l b) xs ys \<longleftrightarrow> list_all2 (=) (map l xs) (map l ys)"
      by (simp add: list.rel_map)
    then show ?thesis by (simp add: list.rel_eq)
  qed
  show ?thesis
  proof
    assume "spec_contains_ci (map l) field q"
    then obtain pre' post' where "map l field = pre' @ (map l q @ post')"
      by (auto simp: spec_contains_ci_def)
    then obtain pre rest where f1: "field = pre @ rest"
      and r: "map l rest = map l q @ post'"
      by (metis map_eq_append_conv)
    from r obtain mid post where f2: "rest = mid @ post" and "map l q = map l mid"
      by (metis map_eq_append_conv)
    then have "list_all2 (\<lambda>a b. l a = l b) mid q" by (simp add: all2)
    with f1 f2 show "\<exists>pre mid post. field = pre @ mid @ post \<and> list_all2 (\<lambda>a b. l a = l b) mid q"
      by blast
  next
    assume "\<exists>pre mid post. field = pre @ mid @ post \<and> list_all2 (\<lambda>a b. l a = l b) mid q"
    then obtain pre mid post where f: "field = pre @ mid @ post"
      and m: "list_all2 (\<lambda>a b. l a = l b) mid q" by blast
    from m have "map l mid = map l q" by (simp add: all2)
    with f have "map l field = map l pre @ map l q @ map l post" by simp
    then show "spec_contains_ci (map l) field q"
      unfolding spec_contains_ci_def by blast
  qed
qed



end
